theory Spec2Isabelle
  imports Main
begin

section \<open>Contact serializers: wire values, stored rows, errors\<close>

text \<open>
  The module \<^verbatim>\<open>pdc/apps/contact/serializers.py\<close> adapts the contact models to their wire
  form. Its three pieces of logic are embedded here: \<^verbatim>\<open>LimitField\<close>, \<^verbatim>\<open>ContactField\<close> and
  \<^verbatim>\<open>UniqueRoleContactValidator\<close>. A wire value is the JSON scalar a field receives or
  renders: an integer or a text.
\<close>

datatype wire = JInt int | JStr string

text \<open>
  Modelled from the spec: the models module is not part of the sources. A role has a
  unique name and a count limit. A contact row has a key and resolves to a leaf: a Person
  (username, email), a Maillist (mail name, email), or the base row itself when it is
  neither (\<open>Base_obj\<close>, class name \<^verbatim>\<open>Contact\<close>). A join row holds the keys of its role and of
  its contact.
\<close>

record contact_role =
  role_pk :: nat
  name :: string
  count_limit :: int

datatype leaf = Person_obj string string | Maillist_obj string string | Base_obj

record contact =
  contact_pk :: nat
  leaf_row :: leaf

record role_contact =
  rc_pk :: nat
  contact_role_id :: nat
  contact_id :: nat

text \<open>The two model classes that \<^verbatim>\<open>field_to_class\<close> names.\<close>

datatype clazz = Person | Maillist

text \<open>
  What a validation error carries: \<open>Fail key\<close> is the framework's \<^verbatim>\<open>self.fail(key)\<close> of a
  field (\<^verbatim>\<open>invalid\<close>, \<^verbatim>\<open>min_value\<close>, \<^verbatim>\<open>blank\<close>, ...), \<open>Message\<close> a literal message,
  \<open>Unsupported_Contact\<close> the text \<^verbatim>\<open>"Unsupported Contact: %s" % value\<close>, and \<open>Unique_message\<close>
  the validator's message formatted with the field names.
\<close>

datatype detail =
    Fail string
  | Message string
  | Unsupported_Contact contact
  | Unique_message "string list"

text \<open>
  Every exception the code can raise is a value. Only \<open>ValidationError\<close> is a validation
  error; the others are the object-relational mapping's own exceptions (\<open>FieldError\<close> names
  the keyword that is no field) and Python's \<^verbatim>\<open>AttributeError\<close> on \<^verbatim>\<open>None\<close>.
\<close>

datatype error =
    ValidationError detail
  | FieldError string
  | DoesNotExist
  | MultipleObjectsReturned
  | AttributeError

section \<open>LimitField\<close>

text \<open>
  \<^verbatim>\<open>LimitField(serializers.IntegerField)\<close>. The constructor forces \<^verbatim>\<open>min_value = 0\<close> and keeps
  the sentinel \<^verbatim>\<open>unlimited_value\<close>.
\<close>

record LimitField =
  unlimited_value :: int
  min_value :: "int option"

definition UNLIMITED_STR :: string where
  "UNLIMITED_STR = ''unlimited''"

definition LimitField_init :: "int \<Rightarrow> LimitField" where
  "LimitField_init u = \<lparr>unlimited_value = u, min_value = Some 0\<rparr>"

text \<open>
  The superclass \<^verbatim>\<open>IntegerField\<close> belongs to the framework. Outward it renders \<^verbatim>\<open>int(value)\<close>.
  Inward it computes \<^verbatim>\<open>int(...)\<close> of the text of its input: for an integer that is the integer
  itself; for a text the reading is the parameter \<open>read_text\<close> (the framework's and the
  interpreter's rules for integer text), which either gives the integer or the failure the
  field reports. The bound \<^verbatim>\<open>min_value\<close> is a validator of the field: \<^verbatim>\<open>run_validation\<close> calls
  \<^verbatim>\<open>to_internal_value\<close> and then the validators on its result.
\<close>

definition IntegerField_to_representation :: "int \<Rightarrow> wire" where
  "IntegerField_to_representation obj = JInt obj"

definition IntegerField_to_internal_value :: "(string \<Rightarrow> detail + int) \<Rightarrow> wire \<Rightarrow> error + int" where
  "IntegerField_to_internal_value read_text data =
     (case data of
        JInt n \<Rightarrow> Inr n
      | JStr s \<Rightarrow> (case read_text s of Inl d \<Rightarrow> Inl (ValidationError d) | Inr n \<Rightarrow> Inr n))"

definition run_validators :: "int option \<Rightarrow> int \<Rightarrow> error + int" where
  "run_validators lower n =
     (case lower of
        None \<Rightarrow> Inr n
      | Some m \<Rightarrow> if n < m then Inl (ValidationError (Fail ''min_value'')) else Inr n)"

definition IntegerField_run_validation :: "(string \<Rightarrow> detail + int) \<Rightarrow> int option \<Rightarrow> wire \<Rightarrow> error + int" where
  "IntegerField_run_validation read_text lower data =
     (case IntegerField_to_internal_value read_text data of
        Inl e \<Rightarrow> Inl e
      | Inr n \<Rightarrow> run_validators lower n)"

definition LimitField_to_representation :: "LimitField \<Rightarrow> int \<Rightarrow> wire" where
  "LimitField_to_representation self obj =
     (if obj = unlimited_value self then JStr UNLIMITED_STR
      else IntegerField_to_representation obj)"

definition LimitField_to_internal_value :: "(string \<Rightarrow> detail + int) \<Rightarrow> LimitField \<Rightarrow> wire \<Rightarrow> error + int" where
  "LimitField_to_internal_value read_text self v =
     (if v = JStr UNLIMITED_STR then Inr (unlimited_value self)
      else IntegerField_to_internal_value read_text v)"

definition LimitField_run_validation :: "(string \<Rightarrow> detail + int) \<Rightarrow> LimitField \<Rightarrow> wire \<Rightarrow> error + int" where
  "LimitField_run_validation read_text self data =
     (case LimitField_to_internal_value read_text self data of
        Inl e \<Rightarrow> Inl e
      | Inr n \<Rightarrow> run_validators (min_value self) n)"

text \<open>
  A reading of integer text to run the fields on examples: an optional minus sign and
  decimal digits; anything else is the failure \<^verbatim>\<open>invalid\<close>.
\<close>

definition digit_of :: "char \<Rightarrow> nat option" where
  "digit_of c =
     (let k = (of_char c :: nat) in if 48 \<le> k \<and> k \<le> 57 then Some (k - 48) else None)"

fun digits_value :: "nat \<Rightarrow> string \<Rightarrow> nat option" where
  "digits_value acc [] = Some acc"
| "digits_value acc (c # cs) =
     (case digit_of c of None \<Rightarrow> None | Some d \<Rightarrow> digits_value (10 * acc + d) cs)"

definition decimal_text :: "string \<Rightarrow> detail + int" where
  "decimal_text s =
     (case s of
        [] \<Rightarrow> Inl (Fail ''invalid'')
      | c # cs \<Rightarrow>
          if c = CHR ''-'' then
            (if cs = [] then Inl (Fail ''invalid'')
             else (case digits_value 0 cs of None \<Rightarrow> Inl (Fail ''invalid'') | Some k \<Rightarrow> Inr (- int k)))
          else (case digits_value 0 s of None \<Rightarrow> Inl (Fail ''invalid'') | Some k \<Rightarrow> Inr (int k)))"

section \<open>The store and its queries\<close>

text \<open>
  A changeset entry is what \<^verbatim>\<open>request.changeset.add(model_name, id, old, new)\<close> records. Its
  two states are texts: a literal, or \<open>Json_dumps d\<close> for the JSON text \<^verbatim>\<open>json.dumps(d)\<close> of a
  dictionary \<open>d\<close>.
\<close>

datatype json_text = Text string | Json_dumps "(string \<times> string) list"

record change =
  entity :: string
  entity_pk :: nat
  old_state :: json_text
  new_state :: json_text

record request =
  changeset :: "change list"

text \<open>
  The state the code reads and writes: the three tables, the next key of the contact
  table, and the request of the serializer context (\<open>None\<close> when the context has none).
\<close>

record world =
  contact_roles :: "contact_role list"
  contacts :: "contact list"
  role_contacts :: "role_contact list"
  next_contact_pk :: nat
  context_request :: "request option"

text \<open>
  A computation takes the state and returns an exception or a result, with the state as
  it is then: what was written before an exception stays written.
\<close>

type_synonym 'a run = "world \<Rightarrow> (error + 'a) \<times> world"

definition and_then :: "'a run \<Rightarrow> ('a \<Rightarrow> 'b run) \<Rightarrow> 'b run" where
  "and_then m f s = (case m s of (Inl e, s') \<Rightarrow> (Inl e, s') | (Inr x, s') \<Rightarrow> f x s')"

text \<open>
  Modelled from the spec: the query interface of the object-relational mapping is not part
  of the sources. In the spec's words a lookup fetches the record matching all supplied
  fields. What the spec leaves open follows the library: the keywords of \<^verbatim>\<open>get\<close> are resolved
  against the fields of the model, and a keyword that names no field raises its
  \<open>FieldError\<close>; \<^verbatim>\<open>get\<close> returns the one matching row, and raises when there is none or more
  than one. A table's \<open>columns\<close> resolve a keyword to a reader of the row. Exact matches on
  the data columns of the leaves and on the name of a role are modelled; keywords for keys
  and lookup suffixes are not.
\<close>

type_synonym 'row columns = "string \<Rightarrow> ('row \<Rightarrow> string option) option"

definition row_matches :: "'row columns \<Rightarrow> (string \<times> string) list \<Rightarrow> 'row \<Rightarrow> bool" where
  "row_matches cols kwargs row =
     list_all (\<lambda>(k, v). case cols k of None \<Rightarrow> False | Some col \<Rightarrow> col row = Some v) kwargs"

definition objects_get :: "'row columns \<Rightarrow> 'row list \<Rightarrow> (string \<times> string) list \<Rightarrow> error + 'row" where
  "objects_get cols rows kwargs =
     (case find (\<lambda>k. Option.is_none (cols k)) (map fst kwargs) of
        Some k \<Rightarrow> Inl (FieldError k)
      | None \<Rightarrow>
          (case filter (row_matches cols kwargs) rows of
             [] \<Rightarrow> Inl DoesNotExist
           | [row] \<Rightarrow> Inr row
           | _ \<Rightarrow> Inl MultipleObjectsReturned))"

definition ContactRole_columns :: "contact_role columns" where
  "ContactRole_columns k = (if k = ''name'' then Some (\<lambda>r. Some (name r)) else None)"

text \<open>
  Modelled from the spec: \<^verbatim>\<open>as_leaf_class\<close> belongs to the models module; every contact row
  resolves to exactly one leaf.
\<close>

definition as_leaf_class :: "contact \<Rightarrow> leaf" where
  "as_leaf_class c = leaf_row c"

definition is_instance :: "clazz \<Rightarrow> contact \<Rightarrow> bool" where
  "is_instance cls c =
     (case as_leaf_class c of
        Person_obj u e \<Rightarrow> cls = Person
      | Maillist_obj m e \<Rightarrow> cls = Maillist
      | Base_obj \<Rightarrow> False)"

text \<open>The fields of a leaf that are not its key, with their values, in declaration order.\<close>

fun leaf_fields :: "leaf \<Rightarrow> (string \<times> string) list" where
  "leaf_fields (Person_obj u e) = [(''username'', u), (''email'', e)]"
| "leaf_fields (Maillist_obj m e) = [(''mail_name'', m), (''email'', e)]"
| "leaf_fields Base_obj = []"

fun field_names :: "clazz \<Rightarrow> string list" where
  "field_names Person = [''username'', ''email'']"
| "field_names Maillist = [''mail_name'', ''email'']"

definition leaf_columns :: "clazz \<Rightarrow> contact columns" where
  "leaf_columns cls k =
     (if k \<in> set (field_names cls)
      then Some (\<lambda>c. if is_instance cls c then map_of (leaf_fields (as_leaf_class c)) k else None)
      else None)"

text \<open>
  The base table reaches a leaf column through the relation to the leaf:
  \<^verbatim>\<open>person__username\<close>, \<^verbatim>\<open>maillist__email\<close>, ...
\<close>

definition Contact_columns :: "contact columns" where
  "Contact_columns k =
     (if take 8 k = ''person__'' then leaf_columns Person (drop 8 k)
      else if take 10 k = ''maillist__'' then leaf_columns Maillist (drop 10 k)
      else None)"

definition objects :: "clazz \<Rightarrow> world \<Rightarrow> contact list" where
  "objects cls s = filter (is_instance cls) (contacts s)"

text \<open>
  \<^verbatim>\<open>get_or_create\<close>: the row that \<^verbatim>\<open>get\<close> finds, or else a new row of the class built from the
  keywords (a field without a keyword is blank), stored under the next key.
\<close>

definition kw :: "(string \<times> string) list \<Rightarrow> string \<Rightarrow> string" where
  "kw kwargs k = (case map_of kwargs k of None \<Rightarrow> [] | Some v \<Rightarrow> v)"

fun new_leaf :: "clazz \<Rightarrow> (string \<times> string) list \<Rightarrow> leaf" where
  "new_leaf Person kwargs = Person_obj (kw kwargs ''username'') (kw kwargs ''email'')"
| "new_leaf Maillist kwargs = Maillist_obj (kw kwargs ''mail_name'') (kw kwargs ''email'')"

definition create :: "clazz \<Rightarrow> (string \<times> string) list \<Rightarrow> (contact \<times> bool) run" where
  "create cls kwargs s =
     (let c = \<lparr>contact_pk = next_contact_pk s, leaf_row = new_leaf cls kwargs\<rparr>
      in (Inr (c, True),
          s\<lparr>contacts := contacts s @ [c], next_contact_pk := Suc (next_contact_pk s)\<rparr>))"

definition get_or_create :: "clazz \<Rightarrow> (string \<times> string) list \<Rightarrow> (contact \<times> bool) run" where
  "get_or_create cls kwargs s =
     (case objects_get (leaf_columns cls) (objects cls s) kwargs of
        Inr c \<Rightarrow> (Inr (c, False), s)
      | Inl e \<Rightarrow> if e = DoesNotExist then create cls kwargs s else (Inl e, s))"

text \<open>
  Modelled from the spec: \<^verbatim>\<open>export\<close> of a contact is its leaf's exported form, the leaf's
  fields without the key; the content type names the model in lower case.
\<close>

definition export :: "contact \<Rightarrow> (string \<times> string) list" where
  "export c = leaf_fields (as_leaf_class c)"

fun model_name :: "clazz \<Rightarrow> string" where
  "model_name Person = ''person''"
| "model_name Maillist = ''maillist''"

definition changeset_add :: "string \<Rightarrow> nat \<Rightarrow> json_text \<Rightarrow> json_text \<Rightarrow> request \<Rightarrow> request" where
  "changeset_add m k old new r =
     r\<lparr>changeset := changeset r @ [\<lparr>entity = m, entity_pk = k, old_state = old, new_state = new\<rparr>]\<rparr>"

section \<open>ContactField\<close>

text \<open>
  \<^verbatim>\<open>ContactField(serializers.DictField)\<close> with \<^verbatim>\<open>child = CharField()\<close>. The superclass validates
  every value with the child, in order, and builds the dictionary \<open>dict\<close> of the results (a
  later item replaces an earlier one of the same key). The child's validation is a
  parameter that gives the validated text or the failure the child reports;
  \<open>CharField_run_validation\<close> is the character field's check that the text is not blank.
\<close>

fun dict_set :: "'k \<Rightarrow> 'v \<Rightarrow> ('k \<times> 'v) list \<Rightarrow> ('k \<times> 'v) list" where
  "dict_set k v [] = [(k, v)]"
| "dict_set k v ((k', v') # d) = (if k' = k then (k, v) # d else (k', v') # dict_set k v d)"

definition dict :: "('k \<times> 'v) list \<Rightarrow> ('k \<times> 'v) list" where
  "dict kvs = foldl (\<lambda>d (k, v). dict_set k v d) [] kvs"

fun validated_items :: "(string \<Rightarrow> detail + string) \<Rightarrow> (string \<times> string) list \<Rightarrow> error + (string \<times> string) list" where
  "validated_items child [] = Inr []"
| "validated_items child ((k, v) # kvs) =
     (case child v of
        Inl d \<Rightarrow> Inl (ValidationError d)
      | Inr v' \<Rightarrow>
          (case validated_items child kvs of Inl e \<Rightarrow> Inl e | Inr r \<Rightarrow> Inr ((k, v') # r)))"

definition DictField_to_internal_value :: "(string \<Rightarrow> detail + string) \<Rightarrow> (string \<times> string) list \<Rightarrow> error + (string \<times> string) list" where
  "DictField_to_internal_value child data =
     (case validated_items child data of Inl e \<Rightarrow> Inl e | Inr kvs \<Rightarrow> Inr (dict kvs))"

definition CharField_run_validation :: "string \<Rightarrow> detail + string" where
  "CharField_run_validation v = (if v = [] then Inl (Fail ''blank'') else Inr v)"

text \<open>
  \<^verbatim>\<open>field_to_class.items()\<close>: the dictionary has two entries, and the order in which Python
  iterates over them is not fixed by the source; \<open>username_first\<close> picks one of the two.
\<close>

definition field_to_class_items :: "bool \<Rightarrow> (string \<times> clazz) list" where
  "field_to_class_items username_first =
     (if username_first then [(''username'', Person), (''mail_name'', Maillist)]
      else [(''mail_name'', Maillist), (''username'', Person)])"

text \<open>
  The body of the loop of \<^verbatim>\<open>to_internal_value\<close> once a key of the table is in the data:
  fetch or create the contact in that class, log the creation when the context has a
  request, and return the contact.
\<close>

definition ContactField_found :: "clazz \<Rightarrow> (string \<times> string) list \<Rightarrow> contact run" where
  "ContactField_found cls v_data s =
     (case get_or_create cls v_data s of
        (Inl e, s') \<Rightarrow> (Inl e, s')
      | (Inr (c, created), s') \<Rightarrow>
          (if created then
             (case context_request s' of
                None \<Rightarrow> (Inr c, s')
              | Some r \<Rightarrow>
                  (Inr c, s'\<lparr>context_request :=
                     Some (changeset_add (model_name cls) (contact_pk c) (Text ''null'')
                             (Json_dumps (export c)) r)\<rparr>))
           else (Inr c, s')))"

text \<open>
  The loop: the first key of the table that the data has decides; when no key is there,
  raise.
\<close>

fun ContactField_loop :: "(string \<times> clazz) list \<Rightarrow> (string \<times> string) list \<Rightarrow> contact run" where
  "ContactField_loop [] v_data s =
     (Inl (ValidationError (Message ''Could not determine type of contact.'')), s)"
| "ContactField_loop ((key, cls) # items) v_data s =
     (if key \<in> set (map fst v_data) then ContactField_found cls v_data s
      else ContactField_loop items v_data s)"

definition ContactField_to_internal_value :: "bool \<Rightarrow> (string \<Rightarrow> detail + string) \<Rightarrow> (string \<times> string) list \<Rightarrow> contact run" where
  "ContactField_to_internal_value username_first child data s =
     (case DictField_to_internal_value child data of
        Inl e \<Rightarrow> (Inl e, s)
      | Inr v_data \<Rightarrow> ContactField_loop (field_to_class_items username_first) v_data s)"

text \<open>
  Outward: the serializer class is looked up by the class name of the leaf; the leaf
  serializers render the fields of their \<^verbatim>\<open>Meta\<close> that are not excluded.
\<close>

datatype serializer_cls = PersonSerializer | MaillistSerializer

definition type_name :: "leaf \<Rightarrow> string" where
  "type_name l =
     (case l of Person_obj u e \<Rightarrow> ''Person'' | Maillist_obj m e \<Rightarrow> ''Maillist'' | Base_obj \<Rightarrow> ''Contact'')"

definition class_to_serializer :: "string \<Rightarrow> serializer_cls option" where
  "class_to_serializer = map_of [(''Person'', PersonSerializer), (''Maillist'', MaillistSerializer)]"

fun Meta_fields :: "serializer_cls \<Rightarrow> string list" where
  "Meta_fields PersonSerializer = [''id'', ''username'', ''email'']"
| "Meta_fields MaillistSerializer = [''id'', ''mail_name'', ''email'']"

definition field_value :: "contact \<Rightarrow> string \<Rightarrow> wire option" where
  "field_value c f =
     (if f = ''id'' then Some (JInt (int (contact_pk c)))
      else map_option JStr (map_of (leaf_fields (as_leaf_class c)) f))"

definition serializer_to_representation :: "serializer_cls \<Rightarrow> string list \<Rightarrow> contact \<Rightarrow> (string \<times> wire) list" where
  "serializer_to_representation cls exclude_fields c =
     List.map_filter (\<lambda>f. map_option (Pair f) (field_value c f))
       (filter (\<lambda>f. f \<notin> set exclude_fields) (Meta_fields cls))"

definition ContactField_to_representation :: "contact \<Rightarrow> error + (string \<times> wire) list" where
  "ContactField_to_representation v =
     (case class_to_serializer (type_name (as_leaf_class v)) of
        Some cls \<Rightarrow> Inr (serializer_to_representation cls [''url''] v)
      | None \<Rightarrow> Inl (ValidationError (Unsupported_Contact v)))"

section \<open>UniqueRoleContactValidator\<close>

text \<open>
  The validator keeps the constrained field names (\<^verbatim>\<open>RoleContact._meta.unique_together[0]\<close>,
  a parameter of the constructor here) and, once \<^verbatim>\<open>set_context\<close> has run, the join row being
  updated, if any. Its query set is the whole join table, read when it is filtered.
\<close>

record validator =
  unique_together :: "string list"
  v_instance :: "role_contact option"

definition UniqueRoleContactValidator_init :: "string list \<Rightarrow> validator" where
  "UniqueRoleContactValidator_init names = \<lparr>unique_together = names, v_instance = None\<rparr>"

definition set_context :: "role_contact option \<Rightarrow> validator \<Rightarrow> validator" where
  "set_context data_instance self = self\<lparr>v_instance := data_instance\<rparr>"

text \<open>The attributes under validation: \<^verbatim>\<open>value.get(k)\<close> is \<open>None\<close> for an omitted field.\<close>

record attrs =
  attrs_contact_role :: "contact_role option"
  attrs_contact :: "contact option"

text \<open>
  \<^verbatim>\<open>self.instance.contact_role\<close> and \<^verbatim>\<open>self.instance.contact\<close> fetch the related row by the
  key the join row holds.
\<close>

definition related_contact_role :: "role_contact \<Rightarrow> contact_role run" where
  "related_contact_role inst s =
     (case find (\<lambda>r. role_pk r = contact_role_id inst) (contact_roles s) of
        None \<Rightarrow> (Inl DoesNotExist, s)
      | Some r \<Rightarrow> (Inr r, s))"

definition related_contact :: "role_contact \<Rightarrow> contact run" where
  "related_contact inst s =
     (case find (\<lambda>c. contact_pk c = contact_id inst) (contacts s) of
        None \<Rightarrow> (Inl DoesNotExist, s)
      | Some c \<Rightarrow> (Inr c, s))"

definition get_contact_role_pk :: "contact_role option \<Rightarrow> nat run" where
  "get_contact_role_pk inst s =
     (case inst of
        None \<Rightarrow> (Inl AttributeError, s)
      | Some r \<Rightarrow>
          (case objects_get ContactRole_columns (contact_roles s) [(''name'', name r)] of
             Inl e \<Rightarrow> (Inl e, s)
           | Inr crole_instance \<Rightarrow> (Inr (role_pk crole_instance), s)))"

definition query_prefix :: "leaf \<Rightarrow> string option" where
  "query_prefix l =
     (case l of
        Person_obj u e \<Rightarrow> Some ''person__''
      | Maillist_obj m e \<Rightarrow> Some ''maillist__''
      | Base_obj \<Rightarrow> None)"

definition get_contact_pk :: "contact option \<Rightarrow> nat run" where
  "get_contact_pk inst s =
     (case inst of
        None \<Rightarrow> (Inl AttributeError, s)
      | Some c \<Rightarrow>
          (case query_prefix (as_leaf_class c) of
             None \<Rightarrow> (Inl (ValidationError (Unsupported_Contact c)), s)
           | Some p \<Rightarrow>
               (case objects_get Contact_columns (contacts s)
                       (map (\<lambda>(f, v). (p @ f, v)) (leaf_fields (as_leaf_class c))) of
                  Inl e \<Rightarrow> (Inl e, s)
                | Inr found \<Rightarrow> (Inr (contact_pk found), s))))"

definition filter_queryset :: "validator \<Rightarrow> nat \<Rightarrow> nat \<Rightarrow> unit run" where
  "filter_queryset self role_id cid s =
     (let queryset = filter (\<lambda>rc. contact_role_id rc = role_id \<and> contact_id rc = cid) (role_contacts s);
          queryset' = (case v_instance self of
                         None \<Rightarrow> queryset
                       | Some inst \<Rightarrow> filter (\<lambda>rc. rc_pk rc \<noteq> rc_pk inst) queryset)
      in if queryset' \<noteq> [] then (Inl (ValidationError (Unique_message (unique_together self))), s)
         else (Inr (), s))"

text \<open>
  \<^verbatim>\<open>__call__\<close>, first half: the candidate pair. With an instance, both related rows are
  fetched (Python evaluates the default of \<^verbatim>\<open>get\<close> before the call) and stand in for an
  omitted field.
\<close>

definition call_inputs :: "validator \<Rightarrow> attrs \<Rightarrow> (contact_role option \<times> contact option) run" where
  "call_inputs self v =
     (case v_instance self of
        Some inst \<Rightarrow>
          and_then (related_contact_role inst) (\<lambda>stored_role.
          and_then (related_contact inst) (\<lambda>stored_contact. (\<lambda>s.
            (Inr (Some (case attrs_contact_role v of None \<Rightarrow> stored_role | Some r \<Rightarrow> r),
                  Some (case attrs_contact v of None \<Rightarrow> stored_contact | Some c \<Rightarrow> c)), s))))
      | None \<Rightarrow> (\<lambda>s. (Inr (attrs_contact_role v, attrs_contact v), s)))"

definition call :: "validator \<Rightarrow> attrs \<Rightarrow> unit run" where
  "call self v =
     and_then (call_inputs self v) (\<lambda>(crole_input, contact_input).
     and_then (get_contact_role_pk crole_input) (\<lambda>role_id.
     and_then (get_contact_pk contact_input) (\<lambda>cid.
       filter_queryset self role_id cid)))"

section \<open>A small store to run the definitions on\<close>

definition qe :: contact_role where
  "qe = \<lparr>role_pk = 1, name = ''qe'', count_limit = 0\<rparr>"

definition dev :: contact_role where
  "dev = \<lparr>role_pk = 2, name = ''dev'', count_limit = 1\<rparr>"

definition alice_row :: contact where
  "alice_row = \<lparr>contact_pk = 1, leaf_row = Person_obj ''alice'' ''a@x.com''\<rparr>"

definition list1_row :: contact where
  "list1_row = \<lparr>contact_pk = 2, leaf_row = Maillist_obj ''list1'' ''l@x.com''\<rparr>"

definition bare_row :: contact where
  "bare_row = \<lparr>contact_pk = 3, leaf_row = Base_obj\<rparr>"

definition qe_alice :: role_contact where
  "qe_alice = \<lparr>rc_pk = 1, contact_role_id = 1, contact_id = 1\<rparr>"

definition dev_list1 :: role_contact where
  "dev_list1 = \<lparr>rc_pk = 2, contact_role_id = 2, contact_id = 2\<rparr>"

definition dev_alice :: role_contact where
  "dev_alice = \<lparr>rc_pk = 3, contact_role_id = 2, contact_id = 1\<rparr>"

definition empty_store :: world where
  "empty_store =
     \<lparr>contact_roles = [qe, dev], contacts = [], role_contacts = [], next_contact_pk = 1,
      context_request = Some \<lparr>changeset = []\<rparr>\<rparr>"

definition joined_store :: world where
  "joined_store =
     \<lparr>contact_roles = [qe, dev], contacts = [alice_row, list1_row],
      role_contacts = [qe_alice, dev_list1, dev_alice], next_contact_pk = 3, context_request = None\<rparr>"

definition alice :: "(string \<times> string) list" where
  "alice = [(''username'', ''alice''), (''email'', ''a@x.com'')]"

definition list1 :: "(string \<times> string) list" where
  "list1 = [(''mail_name'', ''list1''), (''email'', ''l@x.com'')]"

definition ambiguous :: "(string \<times> string) list" where
  "ambiguous = [(''mail_name'', ''list1''), (''username'', ''alice''), (''email'', ''a@x.com'')]"

definition unique_validator :: validator where
  "unique_validator = UniqueRoleContactValidator_init [''contact'', ''contact_role'']"

section \<open>Properties of LimitField\<close>

text \<open>
  C1. Rendering a non-negative integer other than the sentinel and converting it back with
  \<^verbatim>\<open>to_internal_value\<close> gives the integer again (also through the whole field validation of
  a field built by the constructor); the sentinel renders as the text \<^verbatim>\<open>unlimited\<close>, and
  that text converts back to the sentinel.
\<close>

theorem LimitField_round_trip:
  "(0 \<le> n \<and> n \<noteq> u \<longrightarrow>
      LimitField_to_internal_value read_text (LimitField_init u)
          (LimitField_to_representation (LimitField_init u) n) = Inr n
      \<and> LimitField_run_validation read_text (LimitField_init u)
          (LimitField_to_representation (LimitField_init u) n) = Inr n)
   \<and> LimitField_to_representation (LimitField_init u) u = JStr ''unlimited''
   \<and> LimitField_to_internal_value read_text (LimitField_init u) (JStr ''unlimited'') = Inr u"
  by (simp add: LimitField_to_internal_value_def LimitField_to_representation_def
      LimitField_run_validation_def LimitField_init_def IntegerField_to_representation_def
      IntegerField_to_internal_value_def run_validators_def UNLIMITED_STR_def)

theorem LimitField_round_trip_witness:
  "LimitField_to_internal_value decimal_text (LimitField_init 0)
      (LimitField_to_representation (LimitField_init 0) 7) = Inr 7
   \<and> LimitField_run_validation decimal_text (LimitField_init 0)
      (LimitField_to_representation (LimitField_init 0) 7) = Inr 7
   \<and> LimitField_to_representation (LimitField_init 0) 0 = JStr ''unlimited''
   \<and> LimitField_to_internal_value decimal_text (LimitField_init 0) (JStr ''unlimited'') = Inr 0"
  using LimitField_round_trip [of 7 0 decimal_text]
  by simp

text \<open>
  C8. The inward conversion of the field is its validation: \<^verbatim>\<open>to_internal_value\<close> followed by
  the validator of the bound \<^verbatim>\<open>min_value = 0\<close> that the constructor installs. On a field built
  by the constructor, a negative integer is rejected by the bound, and a text other than
  \<^verbatim>\<open>unlimited\<close> that does not read as an integer is rejected with the failure of the reading;
  both are validation errors. Every input other than the text \<^verbatim>\<open>unlimited\<close> is handled exactly
  as by an integer field with lower bound 0.
\<close>

theorem LimitField_rejects:
  "(n < 0 \<longrightarrow>
      LimitField_run_validation read_text (LimitField_init u) (JInt n)
        = Inl (ValidationError (Fail ''min_value'')))
   \<and> (s \<noteq> ''unlimited'' \<and> read_text s = Inl d \<longrightarrow>
      LimitField_run_validation read_text (LimitField_init u) (JStr s) = Inl (ValidationError d))
   \<and> (v \<noteq> JStr ''unlimited'' \<longrightarrow>
      LimitField_run_validation read_text (LimitField_init u) v
        = IntegerField_run_validation read_text (Some 0) v)"
  by (simp add: LimitField_run_validation_def LimitField_to_internal_value_def
      LimitField_init_def IntegerField_run_validation_def IntegerField_to_internal_value_def
      run_validators_def UNLIMITED_STR_def split: wire.splits sum.splits)

theorem LimitField_rejects_witness:
  "LimitField_run_validation decimal_text (LimitField_init 0) (JInt (- 5))
        = Inl (ValidationError (Fail ''min_value''))
   \<and> LimitField_run_validation decimal_text (LimitField_init 0) (JStr ''abc'')
        = Inl (ValidationError (Fail ''invalid''))
   \<and> LimitField_run_validation decimal_text (LimitField_init 0) (JStr ''-5'')
        = Inl (ValidationError (Fail ''min_value''))
   \<and> LimitField_run_validation decimal_text (LimitField_init 0) (JStr ''12'') = Inr 12"
proof -
  have r: "decimal_text ''abc'' = Inl (Fail ''invalid'')" "decimal_text ''-5'' = Inr (- 5)"
    "decimal_text ''12'' = Inr 12"
    by (simp_all add: decimal_text_def digit_of_def)
  have i: "IntegerField_run_validation decimal_text (Some 0) (JStr ''-5'')
             = Inl (ValidationError (Fail ''min_value''))"
    "IntegerField_run_validation decimal_text (Some 0) (JStr ''12'') = Inr 12"
    by (simp_all add: IntegerField_run_validation_def IntegerField_to_internal_value_def
        run_validators_def r)
  show ?thesis
    using LimitField_rejects [of "- 5" decimal_text 0 "''abc''" "Fail ''invalid''" "JStr ''12''"]
      LimitField_rejects [of "- 5" decimal_text 0 "''abc''" "Fail ''invalid''" "JStr ''-5''"] r i
    by simp
qed

section \<open>Properties of ContactField and of the validator\<close>

text \<open>The definitions that evaluating a run on the small store unfolds.\<close>

lemmas store_defs = empty_store_def joined_store_def qe_def dev_def alice_row_def list1_row_def
  qe_alice_def dev_list1_def dev_alice_def unique_validator_def UniqueRoleContactValidator_init_def

lemmas validator_defs = call_def call_inputs_def and_then_def get_contact_role_pk_def
  get_contact_pk_def filter_queryset_def related_contact_role_def related_contact_def
  objects_get_def row_matches_def ContactRole_columns_def Contact_columns_def leaf_columns_def
  is_instance_def as_leaf_class_def query_prefix_def Option.is_none_def Let_def

lemmas field_defs = ContactField_to_internal_value_def DictField_to_internal_value_def
  dict_def CharField_run_validation_def field_to_class_items_def ContactField_found_def
  get_or_create_def create_def objects_def objects_get_def row_matches_def leaf_columns_def
  is_instance_def as_leaf_class_def Option.is_none_def Let_def kw_def changeset_add_def export_def

lemma and_then_snd:
  "(\<And>s. snd (m s) = s) \<Longrightarrow> (\<And>x s. snd (f x s) = s) \<Longrightarrow> snd (and_then m f s) = s"
proof -
  assume m: "\<And>s. snd (m s) = s" and f: "\<And>x s. snd (f x s) = s"
  obtain r s' where ms: "m s = (r, s')" by (cases "m s")
  with m [of s] have "s' = s" by simp
  with ms f show ?thesis by (cases r) (simp_all add: and_then_def)
qed

lemma related_contact_role_snd: "snd (related_contact_role inst s) = s"
  by (simp add: related_contact_role_def split: option.splits)

lemma related_contact_snd: "snd (related_contact inst s) = s"
  by (simp add: related_contact_def split: option.splits)

lemma get_contact_role_pk_snd: "snd (get_contact_role_pk r s) = s"
  by (simp add: get_contact_role_pk_def split: option.splits sum.splits)

lemma get_contact_pk_snd: "snd (get_contact_pk c s) = s"
  by (simp add: get_contact_pk_def split: option.splits sum.splits)

lemma filter_queryset_snd: "snd (filter_queryset self r c s) = s"
  by (simp add: filter_queryset_def Let_def)

lemma call_inputs_snd: "snd (call_inputs self v s) = s"
  unfolding call_inputs_def
  by (cases "v_instance self")
     (simp_all add: and_then_snd related_contact_role_snd related_contact_snd)

text \<open>
  C10. Whatever the validator is given and whatever it answers, the state after the call
  is the state before it: the table of roles, of contacts and of join rows, the key counter
  and the changeset are untouched, on acceptance and on every exception alike.
\<close>

theorem validator_reads_only: "snd (call self v s) = s"
  unfolding call_def
  by (intro and_then_snd call_inputs_snd)
     (simp add: split_beta and_then_snd get_contact_role_pk_snd get_contact_pk_snd filter_queryset_snd)

text \<open>
  Two calls on the store with join rows, one refused and one accepted: the store is the same after both.
\<close>

theorem validator_reads_only_witness:
  "call unique_validator \<lparr>attrs_contact_role = Some qe, attrs_contact = Some alice_row\<rparr> joined_store
     = (Inl (ValidationError (Unique_message [''contact'', ''contact_role''])), joined_store)
   \<and> call unique_validator \<lparr>attrs_contact_role = Some qe, attrs_contact = Some list1_row\<rparr> joined_store
     = (Inr (), joined_store)"
proof -
  let ?v = "\<lparr>attrs_contact_role = Some qe, attrs_contact = Some alice_row\<rparr>"
  let ?w = "\<lparr>attrs_contact_role = Some qe, attrs_contact = Some list1_row\<rparr>"
  have "fst (call unique_validator ?v joined_store)
          = Inl (ValidationError (Unique_message [''contact'', ''contact_role'']))"
    and "fst (call unique_validator ?w joined_store) = Inr ()"
    by (simp_all add: store_defs validator_defs)
  with validator_reads_only [of unique_validator ?v joined_store]
    validator_reads_only [of unique_validator ?w joined_store]
  show ?thesis by (simp add: prod_eq_iff)
qed

lemma objects_get_not_validation: "objects_get cols rows kwargs \<noteq> Inl (ValidationError d)"
  by (simp add: objects_get_def split: option.splits list.splits)

text \<open>
  C9. A contact whose leaf is neither a Person nor a Maillist makes both the outward
  conversion and the validator's \<^verbatim>\<open>get_contact_pk\<close> raise the validation error
  \<^verbatim>\<open>Unsupported Contact\<close>, leaving the state alone. A Person or a Maillist is rendered as its
  key and its fields, and \<^verbatim>\<open>get_contact_pk\<close> raises no validation error for it.
\<close>

theorem unsupported_leaf:
  "(\<not> is_instance Person c \<and> \<not> is_instance Maillist c \<longrightarrow>
      ContactField_to_representation c = Inl (ValidationError (Unsupported_Contact c))
      \<and> get_contact_pk (Some c) s = (Inl (ValidationError (Unsupported_Contact c)), s))
   \<and> (is_instance Person c \<or> is_instance Maillist c \<longrightarrow>
      ContactField_to_representation c
        = Inr ((''id'', JInt (int (contact_pk c)))
               # map (\<lambda>(f, v). (f, JStr v)) (leaf_fields (as_leaf_class c)))
      \<and> (\<forall>d. fst (get_contact_pk (Some c) s) \<noteq> Inl (ValidationError d)))"
proof (cases "as_leaf_class c")
  case (Person_obj u e)
  then show ?thesis
    by (auto simp: is_instance_def ContactField_to_representation_def class_to_serializer_def
        type_name_def serializer_to_representation_def field_value_def List.map_filter_simps
        get_contact_pk_def query_prefix_def objects_get_not_validation split: sum.splits)
next
  case (Maillist_obj m e)
  then show ?thesis
    by (auto simp: is_instance_def ContactField_to_representation_def class_to_serializer_def
        type_name_def serializer_to_representation_def field_value_def List.map_filter_simps
        get_contact_pk_def query_prefix_def objects_get_not_validation split: sum.splits)
next
  case Base_obj
  then show ?thesis
    by (simp add: is_instance_def ContactField_to_representation_def class_to_serializer_def
        type_name_def get_contact_pk_def query_prefix_def)
qed

text \<open>
  A bare contact row, and the rows of alice and of the mailing list.
\<close>

theorem unsupported_leaf_witness:
  "ContactField_to_representation bare_row = Inl (ValidationError (Unsupported_Contact bare_row))
   \<and> get_contact_pk (Some bare_row) joined_store
        = (Inl (ValidationError (Unsupported_Contact bare_row)), joined_store)
   \<and> ContactField_to_representation alice_row
        = Inr [(''id'', JInt 1), (''username'', JStr ''alice''), (''email'', JStr ''a@x.com'')]
   \<and> ContactField_to_representation list1_row
        = Inr [(''id'', JInt 2), (''mail_name'', JStr ''list1''), (''email'', JStr ''l@x.com'')]
   \<and> fst (get_contact_pk (Some alice_row) joined_store) = Inr 1"
proof -
  have b: "\<not> is_instance Person bare_row" "\<not> is_instance Maillist bare_row"
    and a: "is_instance Person alice_row"
    and l: "is_instance Maillist list1_row"
    by (simp_all add: is_instance_def as_leaf_class_def bare_row_def alice_row_def list1_row_def)
  have f: "leaf_fields (as_leaf_class alice_row) = [(''username'', ''alice''), (''email'', ''a@x.com'')]"
    "leaf_fields (as_leaf_class list1_row) = [(''mail_name'', ''list1''), (''email'', ''l@x.com'')]"
    "contact_pk alice_row = 1" "contact_pk list1_row = 2"
    by (simp_all add: as_leaf_class_def alice_row_def list1_row_def)
  have pk: "fst (get_contact_pk (Some alice_row) joined_store) = Inr 1"
    by (simp add: store_defs validator_defs)
  from unsupported_leaf [of bare_row joined_store] unsupported_leaf [of alice_row joined_store]
    unsupported_leaf [of list1_row joined_store] b a l pk
  show ?thesis by (simp add: f)
qed


lemma fst_snd_run: "fst (m s) = r \<Longrightarrow> snd (m s) = s \<Longrightarrow> m s = (r, s)"
  by (cases "m s") simp

lemma filter_queryset_duplicate:
  assumes "rc \<in> set (role_contacts s)" "contact_role_id rc = role_id" "contact_id rc = cid"
    and "\<And>inst. v_instance self = Some inst \<Longrightarrow> rc_pk rc \<noteq> rc_pk inst"
  shows "filter_queryset self role_id cid s
           = (Inl (ValidationError (Unique_message (unique_together self))), s)"
proof (cases "v_instance self")
  case None
  with assms(1-3) show ?thesis
    by (auto simp: filter_queryset_def Let_def filter_empty_conv)
next
  case (Some inst)
  with assms(4) have "rc_pk rc \<noteq> rc_pk inst" by simp
  with Some assms(1-3) show ?thesis
    by (auto simp: filter_queryset_def Let_def filter_empty_conv)
qed

lemma call_duplicate:
  assumes inputs: "fst (call_inputs self v s) = Inr (crole_input, contact_input)"
    and role: "fst (get_contact_role_pk crole_input s) = Inr role_id"
    and contact: "fst (get_contact_pk contact_input s) = Inr cid"
    and row: "rc \<in> set (role_contacts s)" "contact_role_id rc = role_id" "contact_id rc = cid"
    and other: "\<forall>inst. v_instance self = Some inst \<longrightarrow> rc_pk rc \<noteq> rc_pk inst"
  shows "call self v s = (Inl (ValidationError (Unique_message (unique_together self))), s)"
proof -
  have 1: "call_inputs self v s = (Inr (crole_input, contact_input), s)"
    using inputs by (rule fst_snd_run) (rule call_inputs_snd)
  have 2: "get_contact_role_pk crole_input s = (Inr role_id, s)"
    using role by (rule fst_snd_run) (rule get_contact_role_pk_snd)
  have 3: "get_contact_pk contact_input s = (Inr cid, s)"
    using contact by (rule fst_snd_run) (rule get_contact_pk_snd)
  have 4: "filter_queryset self role_id cid s
             = (Inl (ValidationError (Unique_message (unique_together self))), s)"
    using row other by (intro filter_queryset_duplicate) auto
  show ?thesis
    by (simp add: call_def and_then_def 1 2 3 4)
qed

text \<open>
  C4. On an update, with both related rows of the instance in the store, the candidate pair
  takes the stored role for an omitted role and the stored contact for an omitted contact,
  before any key is resolved. So a call that omits the contact is the call with the stored
  contact supplied: it resolves the role given (or stored) and the stored contact and checks
  the join table for that pair; and likewise for an omitted role.
\<close>

theorem partial_update_inputs:
  assumes inst: "v_instance self = Some inst"
    and role: "related_contact_role inst s = (Inr stored_role, s)"
    and contact: "related_contact inst s = (Inr stored_contact, s)"
  shows "call_inputs self v s
           = (Inr (Some (case attrs_contact_role v of None \<Rightarrow> stored_role | Some r \<Rightarrow> r),
                   Some (case attrs_contact v of None \<Rightarrow> stored_contact | Some c \<Rightarrow> c)), s)
         \<and> (attrs_contact v = None \<longrightarrow>
               call self v s = call self (v\<lparr>attrs_contact := Some stored_contact\<rparr>) s
               \<and> call self v s =
                   and_then (get_contact_role_pk
                      (Some (case attrs_contact_role v of None \<Rightarrow> stored_role | Some r \<Rightarrow> r)))
                     (\<lambda>role_id. and_then (get_contact_pk (Some stored_contact))
                        (\<lambda>cid. filter_queryset self role_id cid)) s)
         \<and> (attrs_contact_role v = None \<longrightarrow>
               call self v s = call self (v\<lparr>attrs_contact_role := Some stored_role\<rparr>) s)"
proof -
  have inputs: "call_inputs self w s
           = (Inr (Some (case attrs_contact_role w of None \<Rightarrow> stored_role | Some r \<Rightarrow> r),
                   Some (case attrs_contact w of None \<Rightarrow> stored_contact | Some c \<Rightarrow> c)), s)" for w
    by (simp add: call_inputs_def inst and_then_def role contact)
  show ?thesis
    by (simp add: call_def and_then_def inputs)
qed

text \<open>
  The join row of dev and alice is updated with the role qe only: the stored contact alice
  is the candidate, and the pair of qe and alice is already joined.
\<close>

theorem partial_update_inputs_witness:
  "related_contact_role dev_alice joined_store = (Inr dev, joined_store)
   \<and> related_contact dev_alice joined_store = (Inr alice_row, joined_store)
   \<and> call_inputs (set_context (Some dev_alice) unique_validator)
         \<lparr>attrs_contact_role = Some qe, attrs_contact = None\<rparr> joined_store
        = (Inr (Some qe, Some alice_row), joined_store)
   \<and> call (set_context (Some dev_alice) unique_validator)
         \<lparr>attrs_contact_role = Some qe, attrs_contact = None\<rparr> joined_store
        = call (set_context (Some dev_alice) unique_validator)
            \<lparr>attrs_contact_role = Some qe, attrs_contact = Some alice_row\<rparr> joined_store
   \<and> call (set_context (Some dev_alice) unique_validator)
         \<lparr>attrs_contact_role = Some qe, attrs_contact = None\<rparr> joined_store
        = (Inl (ValidationError (Unique_message [''contact'', ''contact_role''])), joined_store)"
proof -
  let ?self = "set_context (Some dev_alice) unique_validator"
  let ?v = "\<lparr>attrs_contact_role = Some qe, attrs_contact = None\<rparr>"
  have i: "v_instance ?self = Some dev_alice" by (simp add: set_context_def)
  have r: "related_contact_role dev_alice joined_store = (Inr dev, joined_store)"
    by (simp add: store_defs validator_defs)
  have c: "related_contact dev_alice joined_store = (Inr alice_row, joined_store)"
    by (simp add: store_defs validator_defs)
  have e: "call ?self \<lparr>attrs_contact_role = Some qe, attrs_contact = Some alice_row\<rparr> joined_store
        = (Inl (ValidationError (Unique_message [''contact'', ''contact_role''])), joined_store)"
    by (simp add: set_context_def store_defs validator_defs)
  from partial_update_inputs [OF i r c, of ?v] r c e show ?thesis by simp
qed

lemma dict_set_keys: "fst ` set (dict_set k v d) = insert k (fst ` set d)"
proof (induction d)
  case Nil
  show ?case by simp
next
  case (Cons p d)
  obtain k' v' where p: "p = (k', v')" by (cases p)
  from Cons p show ?case by (cases "k' = k") auto
qed

lemma dict_set_distinct: "distinct (map fst d) \<Longrightarrow> distinct (map fst (dict_set k v d))"
proof (induction d)
  case Nil
  then show ?case by simp
next
  case (Cons p d)
  obtain k' v' where p: "p = (k', v')" by (cases p)
  show ?case
  proof (cases "k' = k")
    case True
    with Cons.prems p show ?thesis by simp
  next
    case False
    with Cons p show ?thesis by (simp add: dict_set_keys)
  qed
qed

lemma foldl_dict_set_keys:
  "fst ` set (foldl (\<lambda>d (k, v). dict_set k v d) acc kvs) = fst ` set acc \<union> fst ` set kvs"
  by (induction kvs arbitrary: acc) (simp_all add: dict_set_keys split_beta)

lemma foldl_dict_set_distinct:
  "distinct (map fst acc) \<Longrightarrow> distinct (map fst (foldl (\<lambda>d (k, v). dict_set k v d) acc kvs))"
  by (induction kvs arbitrary: acc) (simp_all add: dict_set_distinct split_beta)

lemma dict_keys: "fst ` set (dict kvs) = fst ` set kvs"
  by (simp add: dict_def foldl_dict_set_keys)

lemma dict_distinct: "distinct (map fst (dict kvs))"
  by (simp add: dict_def foldl_dict_set_distinct)

lemma validated_items_keys: "validated_items child data = Inr kvs \<Longrightarrow> map fst kvs = map fst data"
  by (induction child data arbitrary: kvs rule: validated_items.induct)
     (auto split: sum.splits)

lemma validated_items_error:
  "validated_items child data = Inl e \<Longrightarrow> \<exists>d. e = ValidationError d"
  by (induction child data rule: validated_items.induct) (auto split: sum.splits)

lemma DictField_keys:
  assumes "DictField_to_internal_value child data = Inr v_data"
  shows "fst ` set v_data = fst ` set data \<and> distinct (map fst v_data)"
proof -
  from assms obtain kvs where kvs: "validated_items child data = Inr kvs" and v: "v_data = dict kvs"
    by (auto simp: DictField_to_internal_value_def split: sum.splits)
  from validated_items_keys [OF kvs] have "set (map fst kvs) = set (map fst data)" by simp
  then have "fst ` set kvs = fst ` set data" by simp
  with v show ?thesis by (simp add: dict_keys dict_distinct)
qed

lemma DictField_error:
  "DictField_to_internal_value child data = Inl e \<Longrightarrow> \<exists>d. e = ValidationError d"
  by (auto simp: DictField_to_internal_value_def split: sum.splits dest: validated_items_error)

text \<open>
  C6. Data with neither the key \<^verbatim>\<open>username\<close> nor the key \<^verbatim>\<open>mail_name\<close> is refused with a
  validation error (the dictionary field's own, or \<^verbatim>\<open>Could not determine type of contact\<close>), and
  the state is left as it was: no row is created and nothing is logged.
\<close>

theorem no_key_rejected:
  assumes "''username'' \<notin> set (map fst data)" "''mail_name'' \<notin> set (map fst data)"
  shows "\<exists>d. ContactField_to_internal_value username_first child data s
               = (Inl (ValidationError d), s)"
proof (cases "DictField_to_internal_value child data")
  case (Inl e)
  then show ?thesis
    using DictField_error [OF Inl] by (auto simp: ContactField_to_internal_value_def)
next
  case (Inr v_data)
  with assms DictField_keys [OF Inr] show ?thesis
    by (simp add: ContactField_to_internal_value_def field_to_class_items_def)
qed


text \<open>
  Data with an email only, in both iteration orders.
\<close>

theorem no_key_rejected_witness:
  "ContactField_to_internal_value True CharField_run_validation [(''email'', ''a@x.com'')] empty_store
     = (Inl (ValidationError (Message ''Could not determine type of contact.'')), empty_store)
   \<and> ContactField_to_internal_value False CharField_run_validation [(''email'', '''')] empty_store
     = (Inl (ValidationError (Fail ''blank'')), empty_store)"
  using no_key_rejected [of "[(''email'', ''a@x.com'')]" True CharField_run_validation empty_store]
    no_key_rejected [of "[(''email'', '''')]" False CharField_run_validation empty_store]
  by (simp add: field_defs)

lemma find_SomeD: "find P xs = Some x \<Longrightarrow> P x \<and> x \<in> set xs"
  by (induction xs) (auto split: if_splits)

lemma objects_get_unresolved:
  assumes "k \<in> fst ` set kwargs" "cols k = None"
  shows "\<exists>k' \<in> fst ` set kwargs. cols k' = None \<and> objects_get cols rows kwargs = Inl (FieldError k')"
proof (cases "find (\<lambda>k. Option.is_none (cols k)) (map fst kwargs)")
  case None
  with assms show ?thesis by (auto simp: find_None_iff Option.is_none_def)
next
  case (Some k')
  from find_SomeD [OF Some] have "cols k' = None" "k' \<in> fst ` set kwargs"
    by (auto simp: Option.is_none_def)
  with Some show ?thesis by (auto simp: objects_get_def)
qed

lemma objects_get_resolved:
  assumes "\<forall>k \<in> fst ` set kwargs. cols k \<noteq> None"
  shows "objects_get cols rows kwargs =
           (case filter (row_matches cols kwargs) rows of
              [] \<Rightarrow> Inl DoesNotExist
            | [row] \<Rightarrow> Inr row
            | _ \<Rightarrow> Inl MultipleObjectsReturned)"
proof -
  from assms have "find (\<lambda>k. Option.is_none (cols k)) (map fst kwargs) = None"
    by (auto simp: find_None_iff Option.is_none_def)
  then show ?thesis by (simp add: objects_get_def)
qed

lemma objects_get_InrD:
  assumes "objects_get cols rows kwargs = Inr r"
  shows "r \<in> set rows \<and> (\<forall>k \<in> fst ` set kwargs. cols k \<noteq> None)"
proof -
  have res: "\<forall>k \<in> fst ` set kwargs. cols k \<noteq> None"
  proof (rule ccontr)
    assume "\<not> ?thesis"
    then obtain k where "k \<in> fst ` set kwargs" "cols k = None" by auto
    with assms objects_get_unresolved [of k kwargs cols rows] show False by auto
  qed
  from assms objects_get_resolved [OF res, of rows]
  have "filter (row_matches cols kwargs) rows = [r]"
    by (auto split: list.splits)
  then have "r \<in> set (filter (row_matches cols kwargs) rows)" by simp
  with res show ?thesis by simp
qed

lemma objects_get_DoesNotExistD:
  assumes "objects_get cols rows kwargs = Inl DoesNotExist"
  shows "\<forall>k \<in> fst ` set kwargs. cols k \<noteq> None"
proof (rule ccontr)
  assume "\<not> ?thesis"
  then obtain k where "k \<in> fst ` set kwargs" "cols k = None" by auto
  with assms objects_get_unresolved [of k kwargs cols rows] show False by auto
qed

lemma leaf_columns_None: "leaf_columns cls k = None \<longleftrightarrow> k \<notin> set (field_names cls)"
  by (simp add: leaf_columns_def)

lemma is_instance_new: "is_instance cls \<lparr>contact_pk = n, leaf_row = new_leaf cls kwargs\<rparr>"
  by (cases cls) (simp_all add: is_instance_def as_leaf_class_def)

lemma ContactField_found_InrD:
  assumes "ContactField_found cls v_data s = (Inr c, s')"
  shows "is_instance cls c \<and> fst ` set v_data \<subseteq> set (field_names cls)"
proof (cases "objects_get (leaf_columns cls) (objects cls s) v_data")
  case (Inr r)
  with assms have "c = r"
    by (simp add: ContactField_found_def get_or_create_def)
  with objects_get_InrD [OF Inr] show ?thesis
    by (auto simp: objects_def leaf_columns_None)
next
  case (Inl e)
  with assms have e: "e = DoesNotExist"
    by (auto simp: ContactField_found_def get_or_create_def split: if_splits)
  with assms Inl have "c = \<lparr>contact_pk = next_contact_pk s, leaf_row = new_leaf cls v_data\<rparr>"
    by (auto simp: ContactField_found_def get_or_create_def create_def Let_def split: option.splits)
  with objects_get_DoesNotExistD [of "leaf_columns cls" "objects cls s" v_data] Inl e
  show ?thesis
    by (auto simp: is_instance_new leaf_columns_None)
qed

lemma ContactField_found_unresolved:
  assumes "k \<in> fst ` set v_data" "k \<notin> set (field_names cls)"
  shows "\<exists>k' \<in> fst ` set v_data. k' \<notin> set (field_names cls)
            \<and> ContactField_found cls v_data s = (Inl (FieldError k'), s)"
proof -
  from assms have "leaf_columns cls k = None" by (simp add: leaf_columns_None)
  with assms(1) objects_get_unresolved [of k v_data "leaf_columns cls" "objects cls s"]
  show ?thesis
    by (auto simp: ContactField_found_def get_or_create_def leaf_columns_None)
qed

lemma loop_choice:
  "ContactField_loop (field_to_class_items username_first) v_data s =
     (if ''username'' \<in> fst ` set v_data \<and> (username_first \<or> ''mail_name'' \<notin> fst ` set v_data)
        then ContactField_found Person v_data s
      else if ''mail_name'' \<in> fst ` set v_data then ContactField_found Maillist v_data s
      else (Inl (ValidationError (Message ''Could not determine type of contact.'')), s))"
  by (simp add: field_to_class_items_def)

lemma kind_by_key_valid:
  assumes "DictField_to_internal_value child data = Inr v_data"
  shows "(''username'' \<in> fst ` set data \<and> ''mail_name'' \<notin> fst ` set data \<longrightarrow>
            ContactField_to_internal_value username_first child data s
              = ContactField_found Person v_data s)
       \<and> (''mail_name'' \<in> fst ` set data \<and> ''username'' \<notin> fst ` set data \<longrightarrow>
            ContactField_to_internal_value username_first child data s
              = ContactField_found Maillist v_data s)
       \<and> (\<forall>c s'. ContactField_to_internal_value username_first child data s = (Inr c, s') \<longrightarrow>
            (''username'' \<in> fst ` set data \<longrightarrow> is_instance Person c)
            \<and> (''mail_name'' \<in> fst ` set data \<longrightarrow> is_instance Maillist c \<and> \<not> is_instance Person c))"
proof -
  from DictField_keys [OF assms] have keys: "fst ` set v_data = fst ` set data" by simp
  have run: "ContactField_to_internal_value username_first child data s
               = ContactField_loop (field_to_class_items username_first) v_data s"
    by (simp add: ContactField_to_internal_value_def assms)
  have ok: "(''username'' \<in> fst ` set data \<longrightarrow> is_instance Person c)
            \<and> (''mail_name'' \<in> fst ` set data \<longrightarrow> is_instance Maillist c \<and> \<not> is_instance Person c)"
    if "ContactField_to_internal_value username_first child data s = (Inr c, s')" for c s'
  proof -
    from that run obtain cls where found: "ContactField_found cls v_data s = (Inr c, s')"
      by (auto simp: loop_choice split: if_splits)
    from ContactField_found_InrD [OF found] keys
    have c: "is_instance cls c" and sub: "fst ` set data \<subseteq> set (field_names cls)" by auto
    show ?thesis
    proof (cases cls)
      case Person
      with sub have "''mail_name'' \<notin> fst ` set data" by auto
      with c Person show ?thesis by simp
    next
      case Maillist
      with sub have "''username'' \<notin> fst ` set data" by auto
      with c Maillist show ?thesis
        by (auto simp: is_instance_def split: leaf.splits)
    qed
  qed
  have one: "''username'' \<in> fst ` set data \<and> ''mail_name'' \<notin> fst ` set data \<longrightarrow>
            ContactField_to_internal_value username_first child data s
              = ContactField_found Person v_data s"
    by (simp add: run loop_choice keys)
  have two: "''mail_name'' \<in> fst ` set data \<and> ''username'' \<notin> fst ` set data \<longrightarrow>
            ContactField_to_internal_value username_first child data s
              = ContactField_found Maillist v_data s"
    by (simp add: run loop_choice keys)
  from one two ok show ?thesis by blast
qed

text \<open>
  C5. The leaf kind follows the key that is present, in either iteration order of the
  table. Whenever the conversion returns a contact, that contact is a Person if the data
  has \<^verbatim>\<open>username\<close>, and a Maillist, not a Person, if the data has \<^verbatim>\<open>mail_name\<close>. And data that the
  dictionary field accepts is fetched or created as a Person when it has \<^verbatim>\<open>username\<close> and not
  \<^verbatim>\<open>mail_name\<close>, and as a Maillist when it has \<^verbatim>\<open>mail_name\<close> and not \<^verbatim>\<open>username\<close>.
\<close>

theorem kind_by_key:
  "(\<forall>v_data. DictField_to_internal_value child data = Inr v_data \<longrightarrow>
       (''username'' \<in> fst ` set data \<and> ''mail_name'' \<notin> fst ` set data \<longrightarrow>
            ContactField_to_internal_value username_first child data s
              = ContactField_found Person v_data s)
       \<and> (''mail_name'' \<in> fst ` set data \<and> ''username'' \<notin> fst ` set data \<longrightarrow>
            ContactField_to_internal_value username_first child data s
              = ContactField_found Maillist v_data s))
   \<and> (\<forall>c s'. ContactField_to_internal_value username_first child data s = (Inr c, s') \<longrightarrow>
            (''username'' \<in> fst ` set data \<longrightarrow> is_instance Person c)
            \<and> (''mail_name'' \<in> fst ` set data \<longrightarrow> is_instance Maillist c \<and> \<not> is_instance Person c))"
proof (cases "DictField_to_internal_value child data")
  case (Inl e)
  then show ?thesis by (simp add: ContactField_to_internal_value_def)
next
  case (Inr v_data)
  from kind_by_key_valid [OF Inr, of username_first s] Inr show ?thesis by simp
qed

text \<open>
  The data of the mailing list resolves to a Maillist, not to a Person.
\<close>

theorem kind_by_key_witness:
  "DictField_to_internal_value CharField_run_validation list1 = Inr list1
   \<and> ContactField_to_internal_value True CharField_run_validation list1 empty_store
        = ContactField_found Maillist list1 empty_store
   \<and> fst (ContactField_to_internal_value True CharField_run_validation list1 empty_store)
        = Inr \<lparr>contact_pk = 1, leaf_row = Maillist_obj ''list1'' ''l@x.com''\<rparr>
   \<and> is_instance Maillist \<lparr>contact_pk = 1, leaf_row = Maillist_obj ''list1'' ''l@x.com''\<rparr>
   \<and> \<not> is_instance Person \<lparr>contact_pk = 1, leaf_row = Maillist_obj ''list1'' ''l@x.com''\<rparr>"
proof -
  let ?run = "ContactField_to_internal_value True CharField_run_validation list1 empty_store"
  let ?c = "\<lparr>contact_pk = 1, leaf_row = Maillist_obj ''list1'' ''l@x.com''\<rparr>"
  have v: "DictField_to_internal_value CharField_run_validation list1 = Inr list1"
    by (simp add: list1_def DictField_to_internal_value_def CharField_run_validation_def dict_def)
  have k: "''mail_name'' \<in> fst ` set list1" "''username'' \<notin> fst ` set list1"
    by (simp_all add: list1_def)
  have f: "fst ?run = Inr ?c"
    by (simp add: list1_def empty_store_def field_defs split: prod.splits)
  then have p: "?run = (Inr ?c, snd ?run)" by (metis prod.collapse)
  from kind_by_key [of CharField_run_validation list1 True empty_store] v k p
  have "?run = ContactField_found Maillist list1 empty_store"
    and "is_instance Maillist ?c \<and> \<not> is_instance Person ?c"
    by blast+
  with v f show ?thesis by simp
qed

text \<open>
  C7, as amended. Data with both keys \<^verbatim>\<open>username\<close> and \<^verbatim>\<open>mail_name\<close> never yields a contact
  and never changes the state: no leaf kind is chosen silently, no row is created, nothing
  is logged. But the exception need not be a validation error: when the dictionary field
  accepts the values and the keys are among \<^verbatim>\<open>username\<close>, \<^verbatim>\<open>mail_name\<close> and \<^verbatim>\<open>email\<close>, it is the
  \<open>FieldError\<close> of the lookup, for the distinguishing key that the class tried first lacks.
\<close>

theorem both_keys_rejected:
  assumes "''username'' \<in> fst ` set data" "''mail_name'' \<in> fst ` set data"
  shows "(\<exists>e. ContactField_to_internal_value username_first child data s = (Inl e, s))
       \<and> (\<forall>v_data. DictField_to_internal_value child data = Inr v_data
              \<and> fst ` set data \<subseteq> {''username'', ''mail_name'', ''email''} \<longrightarrow>
            ContactField_to_internal_value username_first child data s
              = (Inl (FieldError (if username_first then ''mail_name'' else ''username'')), s))"
proof (cases "DictField_to_internal_value child data")
  case (Inl e)
  then show ?thesis by (simp add: ContactField_to_internal_value_def)
next
  case (Inr v_data)
  from DictField_keys [OF Inr] have keys: "fst ` set v_data = fst ` set data" by simp
  define cls where "cls = (if username_first then Person else Maillist)"
  define k where "k = (if username_first then ''mail_name'' else ''username'')"
  have run: "ContactField_to_internal_value username_first child data s
               = ContactField_found cls v_data s"
    using assms by (simp add: ContactField_to_internal_value_def Inr loop_choice keys cls_def)
  have "k \<in> fst ` set v_data" "k \<notin> set (field_names cls)"
    using assms by (simp_all add: k_def cls_def keys)
  with ContactField_found_unresolved [of k v_data cls s] obtain k'
    where k': "k' \<in> fst ` set v_data" "k' \<notin> set (field_names cls)"
      and err: "ContactField_found cls v_data s = (Inl (FieldError k'), s)"
    by blast
  have "k' = k" if "fst ` set data \<subseteq> {''username'', ''mail_name'', ''email''}"
    using that k' keys by (auto simp: k_def cls_def split: if_splits)
  with run err Inr show ?thesis by (auto simp: k_def)
qed


text \<open>
  The claim as stated fails: with both keys and values that the dictionary field accepts, the
  exception is a \<open>FieldError\<close>, not a validation error, in either iteration order.
\<close>

theorem both_keys_counterexample:
  "ContactField_to_internal_value True CharField_run_validation
      [(''username'', ''alice''), (''mail_name'', ''list1''), (''email'', ''a@x.com'')] empty_store
     = (Inl (FieldError ''mail_name''), empty_store)
   \<and> ContactField_to_internal_value False CharField_run_validation
      [(''username'', ''alice''), (''mail_name'', ''list1''), (''email'', ''a@x.com'')] empty_store
     = (Inl (FieldError ''username''), empty_store)"
  by (simp add: field_defs)

text \<open>
  The amended statement on data with both keys and an email, in both iteration orders.
\<close>

theorem both_keys_rejected_witness:
  "DictField_to_internal_value CharField_run_validation ambiguous = Inr ambiguous
   \<and> ContactField_to_internal_value True CharField_run_validation ambiguous joined_store
        = (Inl (FieldError ''mail_name''), joined_store)
   \<and> ContactField_to_internal_value False CharField_run_validation ambiguous joined_store
        = (Inl (FieldError ''username''), joined_store)"
proof -
  have v: "DictField_to_internal_value CharField_run_validation ambiguous = Inr ambiguous"
    by (simp add: ambiguous_def DictField_to_internal_value_def CharField_run_validation_def dict_def)
  have k: "''username'' \<in> fst ` set ambiguous" "''mail_name'' \<in> fst ` set ambiguous"
    "fst ` set ambiguous \<subseteq> {''username'', ''mail_name'', ''email''}"
    by (simp_all add: ambiguous_def)
  from both_keys_rejected [OF k(1,2), of True CharField_run_validation joined_store]
    both_keys_rejected [OF k(1,2), of False CharField_run_validation joined_store] v k(3)
  show ?thesis by simp
qed

lemma new_row_matches:
  assumes "distinct (map fst kwargs)" "fst ` set kwargs \<subseteq> set (field_names cls)"
  shows "row_matches (leaf_columns cls) kwargs \<lparr>contact_pk = n, leaf_row = new_leaf cls kwargs\<rparr>"
proof -
  have "map_of (leaf_fields (new_leaf cls kwargs)) k = Some v" if kv: "(k, v) \<in> set kwargs" for k v
  proof -
    from kv assms(1) have m: "kw kwargs k = v" by (simp add: kw_def)
    from kv assms(2) have "k \<in> set (field_names cls)" by force
    with m show ?thesis by (cases cls) auto
  qed
  moreover have "k \<in> set (field_names cls)" if "(k, v) \<in> set kwargs" for k v
    using that assms(2) by force
  ultimately show ?thesis
    by (auto simp: row_matches_def list_all_iff leaf_columns_def is_instance_new as_leaf_class_def)
qed

text \<open>
  C2, as amended. Take data that the dictionary field accepts, that has the key of a class
  of the table, whose keys are all fields of that class, and that matches no stored row of
  the class. Then the conversion returns a new contact of the class that matches the data;
  the contact table grows by exactly that row and the other tables stay; without a request
  nothing is logged, and with a request the changeset grows by exactly one entry: the model
  name, the new key, \<^verbatim>\<open>null\<close>, and the JSON text of the contact's export. Presented again in
  the resulting state, the same data returns the same contact and leaves the state as it is.
\<close>

theorem created_once:
  assumes valid: "DictField_to_internal_value child data = Inr v_data"
    and key: "(key, cls) \<in> set (field_to_class_items username_first)" "key \<in> fst ` set data"
    and shape: "fst ` set data \<subseteq> set (field_names cls)"
    and fresh: "filter (row_matches (leaf_columns cls) v_data) (objects cls s) = []"
  shows "\<exists>c s1. ContactField_to_internal_value username_first child data s = (Inr c, s1)
           \<and> is_instance cls c \<and> row_matches (leaf_columns cls) v_data c
           \<and> contacts s1 = contacts s @ [c]
           \<and> contact_roles s1 = contact_roles s \<and> role_contacts s1 = role_contacts s
           \<and> (case context_request s of
                 None \<Rightarrow> context_request s1 = None
               | Some r \<Rightarrow> \<exists>r'. context_request s1 = Some r'
                   \<and> changeset r' = changeset r @
                        [\<lparr>entity = model_name cls, entity_pk = contact_pk c,
                          old_state = Text ''null'', new_state = Json_dumps (export c)\<rparr>])
           \<and> ContactField_to_internal_value username_first child data s1 = (Inr c, s1)"
proof -
  from DictField_keys [OF valid]
  have keys: "fst ` set v_data = fst ` set data" and dist: "distinct (map fst v_data)" by simp_all
  have run: "ContactField_to_internal_value username_first child data t
               = ContactField_found cls v_data t" for t
  proof (cases cls)
    case Person
    with key(1) have "key = ''username''" by (auto simp: field_to_class_items_def split: if_splits)
    moreover from shape Person have "''mail_name'' \<notin> fst ` set data" by auto
    ultimately show ?thesis
      using key(2) Person by (simp add: ContactField_to_internal_value_def valid loop_choice keys)
  next
    case Maillist
    with key(1) have "key = ''mail_name''" by (auto simp: field_to_class_items_def split: if_splits)
    moreover from shape Maillist have "''username'' \<notin> fst ` set data" by auto
    ultimately show ?thesis
      using key(2) Maillist by (simp add: ContactField_to_internal_value_def valid loop_choice keys)
  qed
  have res: "\<forall>k \<in> fst ` set v_data. leaf_columns cls k \<noteq> None"
    using shape keys by (auto simp: leaf_columns_None)
  define c where "c = \<lparr>contact_pk = next_contact_pk s, leaf_row = new_leaf cls v_data\<rparr>"
  define s0 where "s0 = s\<lparr>contacts := contacts s @ [c], next_contact_pk := Suc (next_contact_pk s)\<rparr>"
  define s1 where "s1 = (case context_request s0 of
       None \<Rightarrow> s0
     | Some r \<Rightarrow> s0\<lparr>context_request := Some (changeset_add (model_name cls) (contact_pk c)
                    (Text ''null'') (Json_dumps (export c)) r)\<rparr>)"
  have inst: "is_instance cls c" by (simp add: c_def is_instance_new)
  have mat: "row_matches (leaf_columns cls) v_data c"
    unfolding c_def using dist shape keys by (intro new_row_matches) simp_all
  have "objects_get (leaf_columns cls) (objects cls s) v_data = Inl DoesNotExist"
    by (simp add: objects_get_resolved [OF res] fresh)
  then have goc: "get_or_create cls v_data s = (Inr (c, True), s0)"
    by (simp add: get_or_create_def create_def c_def s0_def Let_def)
  have first: "ContactField_found cls v_data s = (Inr c, s1)"
    by (simp add: ContactField_found_def goc s1_def split: option.splits)
  have c1: "contacts s1 = contacts s @ [c]"
    and c2: "contact_roles s1 = contact_roles s"
    and c3: "role_contacts s1 = role_contacts s"
    by (simp_all add: s1_def s0_def split: option.splits)
  have log: "(case context_request s of
                 None \<Rightarrow> context_request s1 = None
               | Some r \<Rightarrow> \<exists>r'. context_request s1 = Some r'
                   \<and> changeset r' = changeset r @
                        [\<lparr>entity = model_name cls, entity_pk = contact_pk c,
                          old_state = Text ''null'', new_state = Json_dumps (export c)\<rparr>])"
    by (simp add: s1_def s0_def changeset_add_def split: option.splits)
  have "filter (row_matches (leaf_columns cls) v_data) (objects cls s1) = [c]"
    using fresh inst mat by (simp add: objects_def c1)
  then have "objects_get (leaf_columns cls) (objects cls s1) v_data = Inr c"
    by (simp add: objects_get_resolved [OF res])
  then have second: "ContactField_found cls v_data s1 = (Inr c, s1)"
    by (simp add: ContactField_found_def get_or_create_def)
  from first second inst mat c1 c2 c3 log show ?thesis
    unfolding run by blast
qed

text \<open>
  The claim as stated fails: this data has the key \<^verbatim>\<open>username\<close> and matches no stored row,
  since no Person is stored, and yet no row is created: the keyword \<^verbatim>\<open>nickname\<close> is no field.
  Nor is a row created for data with a blank value, which the dictionary field refuses.
\<close>

theorem created_claim_counterexample:
  "''username'' \<in> fst ` set [(''username'', ''alice''), (''nickname'', ''al'')]
   \<and> objects Person empty_store = []
   \<and> ContactField_to_internal_value True CharField_run_validation
        [(''username'', ''alice''), (''nickname'', ''al'')] empty_store
       = (Inl (FieldError ''nickname''), empty_store)
   \<and> ContactField_to_internal_value False CharField_run_validation
        [(''username'', ''alice''), (''nickname'', ''al'')] empty_store
       = (Inl (FieldError ''nickname''), empty_store)
   \<and> ContactField_to_internal_value True CharField_run_validation
        [(''username'', ''alice''), (''email'', '''')] empty_store
       = (Inl (ValidationError (Fail ''blank'')), empty_store)"
  by (simp add: field_defs empty_store_def)

text \<open>
  The amended statement on the data of alice: one Person row, one changeset entry, and the second
  presentation finds the row.
\<close>

theorem created_once_witness:
  "DictField_to_internal_value CharField_run_validation alice = Inr alice
   \<and> filter (row_matches (leaf_columns Person) alice) (objects Person empty_store) = []
   \<and> fst (ContactField_to_internal_value True CharField_run_validation alice empty_store)
        = Inr alice_row
   \<and> contacts (snd (ContactField_to_internal_value True CharField_run_validation alice empty_store))
        = [alice_row]
   \<and> context_request (snd (ContactField_to_internal_value True CharField_run_validation alice empty_store))
        = Some \<lparr>changeset = [\<lparr>entity = ''person'', entity_pk = 1, old_state = Text ''null'',
             new_state = Json_dumps [(''username'', ''alice''), (''email'', ''a@x.com'')]\<rparr>]\<rparr>
   \<and> ContactField_to_internal_value True CharField_run_validation alice
          (snd (ContactField_to_internal_value True CharField_run_validation alice empty_store))
        = (Inr alice_row,
           snd (ContactField_to_internal_value True CharField_run_validation alice empty_store))"
proof -
  let ?run = "ContactField_to_internal_value True CharField_run_validation alice empty_store"
  have v: "DictField_to_internal_value CharField_run_validation alice = Inr alice"
    by (simp add: alice_def DictField_to_internal_value_def CharField_run_validation_def dict_def)
  have k: "(''username'', Person) \<in> set (field_to_class_items True)" "''username'' \<in> fst ` set alice"
    "fst ` set alice \<subseteq> set (field_names Person)"
    by (simp_all add: alice_def field_to_class_items_def)
  have n: "filter (row_matches (leaf_columns Person) alice) (objects Person empty_store) = []"
    by (simp add: objects_def empty_store_def)
  have f: "fst ?run = Inr alice_row"
    by (simp add: alice_def alice_row_def empty_store_def field_defs split: prod.splits)
  have l: "context_request (snd ?run)
        = Some \<lparr>changeset = [\<lparr>entity = ''person'', entity_pk = 1, old_state = Text ''null'',
             new_state = Json_dumps [(''username'', ''alice''), (''email'', ''a@x.com'')]\<rparr>]\<rparr>"
    by (simp add: alice_def alice_row_def empty_store_def field_defs split: prod.splits)
  from created_once [OF v k n] obtain c s1
    where r: "?run = (Inr c, s1)"
      and c: "contacts s1 = contacts empty_store @ [c]"
      and a: "ContactField_to_internal_value True CharField_run_validation alice s1 = (Inr c, s1)"
    by blast
  from r f have "c = alice_row" "s1 = snd ?run" by simp_all
  with c a v n f l show ?thesis by (simp add: empty_store_def)
qed

lemma prefixed_person:
  "row_matches Contact_columns (map (\<lambda>(f, v). (''person__'' @ f, v)) kws)
     = row_matches (leaf_columns Person) kws"
  by (rule ext) (simp add: row_matches_def Contact_columns_def list_all_iff split_beta
      cong: option.case_cong)

lemma prefixed_maillist:
  "row_matches Contact_columns (map (\<lambda>(f, v). (''maillist__'' @ f, v)) kws)
     = row_matches (leaf_columns Maillist) kws"
  by (rule ext) (simp add: row_matches_def Contact_columns_def list_all_iff split_beta
      cong: option.case_cong)

lemma row_matches_person:
  "row_matches (leaf_columns Person) (leaf_fields (Person_obj u e)) = (\<lambda>x. leaf_row x = Person_obj u e)"
proof (rule ext)
  fix x
  show "row_matches (leaf_columns Person) (leaf_fields (Person_obj u e)) x \<longleftrightarrow> leaf_row x = Person_obj u e"
    by (cases "leaf_row x")
       (simp_all add: row_matches_def leaf_columns_def is_instance_def as_leaf_class_def)
qed

lemma row_matches_maillist:
  "row_matches (leaf_columns Maillist) (leaf_fields (Maillist_obj m e)) = (\<lambda>x. leaf_row x = Maillist_obj m e)"
proof (rule ext)
  fix x
  show "row_matches (leaf_columns Maillist) (leaf_fields (Maillist_obj m e)) x \<longleftrightarrow> leaf_row x = Maillist_obj m e"
    by (cases "leaf_row x")
       (simp_all add: row_matches_def leaf_columns_def is_instance_def as_leaf_class_def)
qed

lemma row_matches_leaf:
  assumes "query_prefix l = Some p"
  shows "row_matches Contact_columns (map (\<lambda>(f, v). (p @ f, v)) (leaf_fields l))
           = (\<lambda>x. leaf_row x = l)"
proof (cases l)
  case (Person_obj u e)
  with assms have "p = ''person__''" by (simp add: query_prefix_def)
  with Person_obj show ?thesis
    by (simp only: prefixed_person row_matches_person)
next
  case (Maillist_obj m e)
  with assms have "p = ''maillist__''" by (simp add: query_prefix_def)
  with Maillist_obj show ?thesis
    by (simp only: prefixed_maillist row_matches_maillist)
next
  case Base_obj
  with assms show ?thesis by (simp add: query_prefix_def)
qed

lemma leaf_fields_names:
  "query_prefix l = Some p \<Longrightarrow> \<exists>cls. fst ` set (leaf_fields l) = set (field_names cls)
     \<and> (\<forall>f. Contact_columns (p @ f) = leaf_columns cls f)"
  by (cases l) (auto simp: query_prefix_def Contact_columns_def intro: exI [of _ Person] exI [of _ Maillist])

lemma Contact_columns_resolved:
  assumes "query_prefix l = Some p"
  shows "\<forall>k \<in> fst ` set (map (\<lambda>(f, v). (p @ f, v)) (leaf_fields l)). Contact_columns k \<noteq> None"
proof -
  from leaf_fields_names [OF assms] obtain cls
    where n: "fst ` set (leaf_fields l) = set (field_names cls)"
      and c: "\<And>f. Contact_columns (p @ f) = leaf_columns cls f" by blast
  show ?thesis
  proof
    fix k assume "k \<in> fst ` set (map (\<lambda>(f, v). (p @ f, v)) (leaf_fields l))"
    then obtain f where f: "f \<in> fst ` set (leaf_fields l)" and k: "k = p @ f" by force
    from f n have "leaf_columns cls f \<noteq> None" by (simp add: leaf_columns_def)
    with c k show "Contact_columns k \<noteq> None" by simp
  qed
qed

lemma get_contact_pk_by_fields:
  assumes "leaf_row c \<noteq> Base_obj" "filter (\<lambda>x. leaf_row x = leaf_row c) (contacts s) = [c0]"
  shows "get_contact_pk (Some c) s = (Inr (contact_pk c0), s)"
proof -
  from assms(1) obtain p where p: "query_prefix (leaf_row c) = Some p"
    by (cases "leaf_row c") (auto simp: query_prefix_def)
  have "filter (row_matches Contact_columns (map (\<lambda>(f, v). (p @ f, v)) (leaf_fields (leaf_row c))))
          (contacts s) = [c0]"
    using assms(2) by (simp only: row_matches_leaf [OF p])
  then have "objects_get Contact_columns (contacts s)
          (map (\<lambda>(f, v). (p @ f, v)) (leaf_fields (leaf_row c))) = Inr c0"
    by (simp only: objects_get_resolved [OF Contact_columns_resolved [OF p]] list.case)
  with p show ?thesis by (simp add: get_contact_pk_def as_leaf_class_def)
qed

lemma get_contact_role_pk_by_name:
  assumes "filter (\<lambda>x. name x = name r) (contact_roles s) = [r0]"
  shows "get_contact_role_pk (Some r) s = (Inr (role_pk r0), s)"
proof -
  have "row_matches ContactRole_columns [(''name'', name r)] = (\<lambda>x. name x = name r)"
    by (auto simp: row_matches_def ContactRole_columns_def)
  with assms show ?thesis
    by (simp add: get_contact_role_pk_def objects_get_def ContactRole_columns_def Option.is_none_def)
qed

lemma second_create_rejected:
  assumes "v_instance self = None"
    and "attrs_contact_role v = Some r" "attrs_contact v = Some c" "leaf_row c \<noteq> Base_obj"
    and "filter (\<lambda>x. name x = name r) (contact_roles s) = [r0]"
    and "filter (\<lambda>x. leaf_row x = leaf_row c) (contacts s) = [c0]"
    and "rc \<in> set (role_contacts s)" "contact_role_id rc = role_pk r0" "contact_id rc = contact_pk c0"
  shows "call self v s = (Inl (ValidationError (Unique_message (unique_together self))), s)"
proof -
  have 1: "call_inputs self v s = (Inr (Some r, Some c), s)"
    using assms(1-3) by (simp add: call_inputs_def)
  have 2: "get_contact_role_pk (Some r) s = (Inr (role_pk r0), s)"
    using assms(5) by (rule get_contact_role_pk_by_name)
  have 3: "get_contact_pk (Some c) s = (Inr (contact_pk c0), s)"
    using assms(4,6) by (rule get_contact_pk_by_fields)
  have 4: "filter_queryset self (role_pk r0) (contact_pk c0) s
             = (Inl (ValidationError (Unique_message (unique_together self))), s)"
    using assms(1,7-9) by (intro filter_queryset_duplicate) auto
  show ?thesis
    by (simp add: call_def and_then_def 1 2 3 4)
qed

text \<open>
  C3. When the candidate role resolves by name to a key, the candidate contact resolves
  through its leaf fields to a key, and a join row other than the instance under update has
  both keys, the validator raises the validation error whose message carries the constrained
  field names, and changes nothing. In particular on a create (no instance): if the store
  holds one role of the candidate's name and one contact with the candidate's leaf, and a
  join row of these two, the second join row is refused, whatever keys the candidate objects
  themselves carry.
\<close>

theorem duplicate_pair_rejected:
  "(fst (call_inputs self v s) = Inr (crole_input, contact_input)
      \<and> fst (get_contact_role_pk crole_input s) = Inr role_id
      \<and> fst (get_contact_pk contact_input s) = Inr cid
      \<and> rc \<in> set (role_contacts s) \<and> contact_role_id rc = role_id \<and> contact_id rc = cid
      \<and> (\<forall>inst. v_instance self = Some inst \<longrightarrow> rc_pk rc \<noteq> rc_pk inst)
    \<longrightarrow> call self v s = (Inl (ValidationError (Unique_message (unique_together self))), s))
   \<and> (v_instance self = None
      \<and> attrs_contact_role v = Some r \<and> attrs_contact v = Some c \<and> as_leaf_class c \<noteq> Base_obj
      \<and> filter (\<lambda>x. name x = name r) (contact_roles s) = [r0]
      \<and> filter (\<lambda>x. as_leaf_class x = as_leaf_class c) (contacts s) = [c0]
      \<and> rc' \<in> set (role_contacts s)
      \<and> contact_role_id rc' = role_pk r0 \<and> contact_id rc' = contact_pk c0
    \<longrightarrow> call self v s = (Inl (ValidationError (Unique_message (unique_together self))), s))"
proof (intro conjI impI)
  assume "fst (call_inputs self v s) = Inr (crole_input, contact_input)
      \<and> fst (get_contact_role_pk crole_input s) = Inr role_id
      \<and> fst (get_contact_pk contact_input s) = Inr cid
      \<and> rc \<in> set (role_contacts s) \<and> contact_role_id rc = role_id \<and> contact_id rc = cid
      \<and> (\<forall>inst. v_instance self = Some inst \<longrightarrow> rc_pk rc \<noteq> rc_pk inst)"
  then show "call self v s = (Inl (ValidationError (Unique_message (unique_together self))), s)"
    using call_duplicate [of self v s crole_input contact_input role_id cid rc] by blast
next
  assume "v_instance self = None
      \<and> attrs_contact_role v = Some r \<and> attrs_contact v = Some c \<and> as_leaf_class c \<noteq> Base_obj
      \<and> filter (\<lambda>x. name x = name r) (contact_roles s) = [r0]
      \<and> filter (\<lambda>x. as_leaf_class x = as_leaf_class c) (contacts s) = [c0]
      \<and> rc' \<in> set (role_contacts s)
      \<and> contact_role_id rc' = role_pk r0 \<and> contact_id rc' = contact_pk c0"
  then show "call self v s = (Inl (ValidationError (Unique_message (unique_together self))), s)"
    using second_create_rejected [of self v r c s r0 c0 rc'] by (simp add: as_leaf_class_def)
qed

text \<open>
  A second join row of qe and alice is refused on a create, also when the candidate objects carry
  other keys than the stored rows.
\<close>

theorem duplicate_pair_rejected_witness:
  "fst (get_contact_role_pk (Some qe) joined_store) = Inr 1
   \<and> fst (get_contact_pk (Some alice_row) joined_store) = Inr 1
   \<and> qe_alice \<in> set (role_contacts joined_store)
   \<and> call unique_validator \<lparr>attrs_contact_role = Some qe, attrs_contact = Some alice_row\<rparr> joined_store
        = (Inl (ValidationError (Unique_message [''contact'', ''contact_role''])), joined_store)
   \<and> call unique_validator
          \<lparr>attrs_contact_role = Some (qe\<lparr>role_pk := 7\<rparr>), attrs_contact = Some (alice_row\<lparr>contact_pk := 9\<rparr>)\<rparr>
          joined_store
        = (Inl (ValidationError (Unique_message [''contact'', ''contact_role''])), joined_store)"
proof -
  let ?v = "\<lparr>attrs_contact_role = Some qe, attrs_contact = Some alice_row\<rparr>"
  let ?w = "\<lparr>attrs_contact_role = Some (qe\<lparr>role_pk := 7\<rparr>),
             attrs_contact = Some (alice_row\<lparr>contact_pk := 9\<rparr>)\<rparr>"
  have i: "fst (call_inputs unique_validator ?v joined_store) = Inr (Some qe, Some alice_row)"
    by (simp add: store_defs validator_defs)
  have r: "fst (get_contact_role_pk (Some qe) joined_store) = Inr 1"
    by (simp add: store_defs validator_defs)
  have c: "fst (get_contact_pk (Some alice_row) joined_store) = Inr 1"
    by (simp add: store_defs validator_defs)
  have j: "qe_alice \<in> set (role_contacts joined_store)" "contact_role_id qe_alice = 1"
    "contact_id qe_alice = 1" "v_instance unique_validator = None"
    by (simp_all add: store_defs)
  have n: "filter (\<lambda>x. name x = name (qe\<lparr>role_pk := 7\<rparr>)) (contact_roles joined_store) = [qe]"
    by (simp add: store_defs)
  have l: "filter (\<lambda>x. as_leaf_class x = as_leaf_class (alice_row\<lparr>contact_pk := 9\<rparr>)) (contacts joined_store)
             = [alice_row]"
    "as_leaf_class (alice_row\<lparr>contact_pk := 9\<rparr>) \<noteq> Base_obj"
    by (simp_all add: store_defs as_leaf_class_def)
  have k: "role_pk qe = 1" "contact_pk alice_row = 1" by (simp_all add: store_defs)
  from duplicate_pair_rejected [of unique_validator ?v joined_store "Some qe" "Some alice_row" 1 1 qe_alice]
    i r c j
  have first: "call unique_validator ?v joined_store
        = (Inl (ValidationError (Unique_message (unique_together unique_validator))), joined_store)"
    by simp
  from duplicate_pair_rejected [of unique_validator ?w joined_store _ _ _ _ _
      "qe\<lparr>role_pk := 7\<rparr>" "alice_row\<lparr>contact_pk := 9\<rparr>" qe alice_row qe_alice] j n l k
  have second: "call unique_validator ?w joined_store
        = (Inl (ValidationError (Unique_message (unique_together unique_validator))), joined_store)"
    by simp
  have u: "unique_together unique_validator = [''contact'', ''contact_role'']"
    by (simp add: store_defs)
  from first second r c j(1) show ?thesis by (simp add: u)
qed

end
